theory Spec2Isabelle
  imports Main "HOL-Library.Sublist"
begin

section \<open>The release sync runner (aws-ci/git\_check\_release.py)\<close>

text \<open>
  The script is one function, \<^verbatim>\<open>main\<close>, that reads one command-line option and then
  issues a fixed sequence of external commands, with one branch on the text printed by
  \<^verbatim>\<open>git pull\<close>. The model keeps the commands as the strings the script builds and
  records every call that leaves the interpreter in a trace, the \<^verbatim>\<open>print\<close> calls
  included; what the outside world answers to each call, a value or an exception, is a
  parameter.
\<close>

subsection \<open>The command-line option\<close>

text \<open>
  \<^verbatim>\<open>parser.add_argument('--tf_version', default=2.4, ...)\<close>: a value given on the command
  line is a Python \<^verbatim>\<open>str\<close>; the default is the float literal \<^verbatim>\<open>2.4\<close>, which argparse
  stores as it is (only string defaults are converted). The float is the only
  non-string value \<^verbatim>\<open>args.tf_version\<close> can hold, so it is a constructor of its own.
\<close>

datatype py_value = PyStr string | PyFloat_2_4

text \<open>
  The option as the command line gives it: \<open>None\<close> when \<^verbatim>\<open>--tf_version\<close> is absent,
  \<open>Some s\<close> when it is given with the text \<open>s\<close>. What argparse does with a malformed
  command line (a usage message and exit, before \<^verbatim>\<open>main\<close> is called) is not part of the model.
\<close>

definition parse_args :: "string option \<Rightarrow> py_value" where
  "parse_args flag = (case flag of None \<Rightarrow> PyFloat_2_4 | Some s \<Rightarrow> PyStr s)"

text \<open>
  What \<^verbatim>\<open>str.format\<close> puts in place of a \<^verbatim>\<open>{tf_version}\<close> field: the string itself, and
  for the float \<^verbatim>\<open>2.4\<close> its \<^verbatim>\<open>repr\<close>, which is \<^verbatim>\<open>2.4\<close>.
\<close>

fun py_format_value :: "py_value \<Rightarrow> string" where
  "py_format_value (PyStr s) = s"
| "py_format_value PyFloat_2_4 = ''2.4''"

subsection \<open>Branch names\<close>

text \<open>
  \<^verbatim>\<open>tf_branch = "r{tf_version}_aws".format(...)\<close> and
  \<^verbatim>\<open>git_branch = "r{tf_version}".format(...)\<close>. The third name has no variable in the
  script: \<^verbatim>\<open>'r{tf_version}_aws_git'\<close> is written out in each command that uses it.
\<close>

definition tf_branch :: "py_value \<Rightarrow> string" where
  "tf_branch tf_version = ''r'' @ py_format_value tf_version @ ''_aws''"

definition git_branch :: "py_value \<Rightarrow> string" where
  "git_branch tf_version = ''r'' @ py_format_value tf_version"

definition sync_branch :: "py_value \<Rightarrow> string" where
  "sync_branch tf_version = ''r'' @ py_format_value tf_version @ ''_aws_git''"

subsection \<open>Python's substring test\<close>

text \<open>\<^verbatim>\<open>needle in haystack\<close> on two strings: some position of the haystack starts with the needle.\<close>

fun py_in :: "string \<Rightarrow> string \<Rightarrow> bool" where
  "py_in needle [] = (needle = [])"
| "py_in needle (c # cs) = (prefix needle (c # cs) \<or> py_in needle cs)"

subsection \<open>The outside world\<close>

text \<open>
  Every call that leaves the interpreter either returns or raises, and the environment
  says which. The exceptions are those the calls of this script can raise. An exception
  that arrives from outside at no particular statement (a keyboard interrupt, exhausted
  memory) is not part of the model.
\<close>

datatype py_error =
    FileNotFoundError
  | NotADirectoryError
  | PermissionError
  | OSError
  | ValueError
  | BrokenPipeError
  | UnicodeEncodeError
  | UnicodeDecodeError

text \<open>
  What \<^verbatim>\<open>subprocess.run(argv, stdout=subprocess.PIPE)\<close> gives back. Only standard output
  is piped: \<open>stdout_decoded\<close> stands for the captured bytes through their UTF-8 decoding
  (\<open>Inl UnicodeDecodeError\<close> when they are not valid UTF-8). Standard error is not
  captured: the child writes it to the console, and \<open>stderr_text\<close> is what it wrote there.
\<close>

record completed_process =
  returncode :: int
  stdout_decoded :: "py_error + string"
  stderr_text :: string

text \<open>
  The answers of the environment.
  \<^item> \<open>system_result w cmd\<close>: the exit status \<^verbatim>\<open>os.system(cmd)\<close> returns, or the exception it
    raises (a command that cannot be encoded for the shell). No command is issued twice in
    a run, so the answer is a function of the command.
  \<^item> \<open>chdir_error w path\<close>: the exception \<^verbatim>\<open>os.chdir(path)\<close> raises, if it does.
  \<^item> \<open>run_result w argv\<close>: what \<^verbatim>\<open>subprocess.run\<close> returns or raises.
  \<^item> \<open>print_error w n text\<close>: the exception the \<open>n\<close>-th \<^verbatim>\<open>print\<close> of the run (counted from 0)
    raises when it writes \<open>text\<close>, if it does: the console cannot encode the text, or the
    stream is closed.
\<close>

record world =
  system_result :: "string \<Rightarrow> py_error + int"
  chdir_error :: "string \<Rightarrow> py_error option"
  run_result :: "string list \<Rightarrow> py_error + completed_process"
  print_error :: "nat \<Rightarrow> string \<Rightarrow> py_error option"

datatype event =
    System string
  | Chdir string
  | Run "string list"
  | Print string

type_synonym trace = "event list"

fun is_print :: "event \<Rightarrow> bool" where
  "is_print (Print _) = True"
| "is_print _ = False"

text \<open>
  A call takes the trace so far and gives the trace with the call recorded (also when it
  raises), and its value or its exception.
\<close>

type_synonym 'a call = "trace \<Rightarrow> trace \<times> (py_error + 'a)"

text \<open>\<^verbatim>\<open>os.system(cmd)\<close>: runs the command in a shell and returns its exit status.\<close>

definition os_system :: "world \<Rightarrow> string \<Rightarrow> int call" where
  "os_system w cmd t = (t @ [System cmd], system_result w cmd)"

text \<open>\<^verbatim>\<open>os.chdir(path)\<close>: raises when the directory cannot be entered.\<close>

definition os_chdir :: "world \<Rightarrow> string \<Rightarrow> unit call" where
  "os_chdir w path t =
     (t @ [Chdir path], case chdir_error w path of None \<Rightarrow> Inr () | Some e \<Rightarrow> Inl e)"

text \<open>\<^verbatim>\<open>subprocess.run(argv, stdout=subprocess.PIPE)\<close>: raises when the program cannot be started.\<close>

definition subprocess_run :: "world \<Rightarrow> string list \<Rightarrow> completed_process call" where
  "subprocess_run w argv t = (t @ [Run argv], run_result w argv)"

text \<open>\<^verbatim>\<open>p.stdout.decode('utf-8')\<close>: no call is recorded, the bytes decode or they do not.\<close>

definition decode_stdout :: "completed_process \<Rightarrow> string call" where
  "decode_stdout p t = (t, stdout_decoded p)"

text \<open>
  \<^verbatim>\<open>print(a, b, ...)\<close>: writes the arguments joined by single spaces, then a newline, and
  raises when the stream refuses the text.
\<close>

fun join_spaces :: "string list \<Rightarrow> string" where
  "join_spaces [] = []"
| "join_spaces [x] = x"
| "join_spaces (x # y # ys) = x @ '' '' @ join_spaces (y # ys)"

definition py_print :: "world \<Rightarrow> string list \<Rightarrow> unit call" where
  "py_print w args t =
     (let text = join_spaces args @ [CHR 0x0A]
      in (t @ [Print text],
          case print_error w (length (filter is_print t)) text of
            None \<Rightarrow> Inr ()
          | Some e \<Rightarrow> Inl e))"

text \<open>
  One statement after another: when the first raises, the exception ends the run and the
  rest is not executed; otherwise the rest runs on the trace the first left.
\<close>

definition seq :: "'a call \<Rightarrow> ('a \<Rightarrow> trace \<Rightarrow> trace \<times> py_error option) \<Rightarrow> trace \<Rightarrow> trace \<times> py_error option" where
  "seq m k t = (case m t of (t', Inl e) \<Rightarrow> (t', Some e) | (t', Inr x) \<Rightarrow> k x t')"

text \<open>The end of the function body: \<^verbatim>\<open>main\<close> returns.\<close>

definition finish :: "trace \<Rightarrow> trace \<times> py_error option" where
  "finish t = (t, None)"

subsection \<open>main\<close>

text \<open>
  The body of \<^verbatim>\<open>main\<close>, statement by statement. The result is the trace of calls made
  and the exception that ended the run, if one did. No statement is inside a \<^verbatim>\<open>try\<close>, so
  an exception of any call ends the run there. The exit statuses of \<^verbatim>\<open>os.system\<close> and the
  return code of the pull are received and dropped, as in the script.
\<close>

definition main :: "py_value \<Rightarrow> world \<Rightarrow> trace \<times> py_error option" where
  "main tf_version w =
    (let tf_branch = ''r'' @ py_format_value tf_version @ ''_aws'';
         git_branch = ''r'' @ py_format_value tf_version
     in
       (seq (os_system w ''git clone codecommit::us-west-2://aws-tensorflow'') (\<lambda>_.
        seq (os_chdir w ''aws-tensorflow/'') (\<lambda>_.
        seq (os_system w (''git checkout '' @ tf_branch)) (\<lambda>_.
        seq (os_system w (''git checkout -b r'' @ py_format_value tf_version @ ''_aws_git'')) (\<lambda>_.
        seq (os_system w ''git remote add google https://github.com/tensorflow/tensorflow.git'') (\<lambda>_.
        seq (py_print w [''git'', ''pull'', ''--commit'', ''google'', git_branch]) (\<lambda>_.
        seq (subprocess_run w [''git'', ''pull'', ''--commit'', ''google'', git_branch]) (\<lambda>p.
        seq (decode_stdout p) (\<lambda>output.
        seq (py_print w [output]) (\<lambda>_.
        seq (os_system w ''git status'') (\<lambda>_.
        if py_in ''Already up to date'' output
        then
          seq (py_print w [''Branch already up to date.'']) (\<lambda>_. finish)
        else
          seq (os_system w
                (''git push --set-upstream origin r'' @ py_format_value tf_version @ ''_aws_git'')) (\<lambda>_.
          seq (os_system w
                (''aws codecommit create-pull-request --title '' @ [CHR 0x22] @ ''TF''
                  @ py_format_value tf_version @ '' git sync'' @ [CHR 0x22]
                  @ '' --description '' @ [CHR 0x22] @ ''Sync tf ''
                  @ py_format_value tf_version @ '' with vanilla tf branch'' @ [CHR 0x22] @ '' ''
                  @ ''--client-request-token request_token --targets repositoryName=aws-tensorflow,sourceReference=r''
                  @ py_format_value tf_version @ ''_aws_git,destinationReference='' @ tf_branch)) (\<lambda>_.
          finish)))))))))))))
       [])"

subsection \<open>Names for the pieces of the commands\<close>

text \<open>
  The script writes its commands as format strings. The definitions below name the
  pieces, so that the properties can speak of the argument vector of the pull, the
  title of the pull request, and so on. \<open>main\<close> above does not use them: the lemmas
  of the next section show that the commands of \<open>main\<close> are built from these pieces.
\<close>

definition pull_argv :: "py_value \<Rightarrow> string list" where
  "pull_argv v = [''git'', ''pull'', ''--commit'', ''google'', git_branch v]"

definition pr_title :: "py_value \<Rightarrow> string" where
  "pr_title v = ''TF'' @ py_format_value v @ '' git sync''"

definition pr_description :: "py_value \<Rightarrow> string" where
  "pr_description v = ''Sync tf '' @ py_format_value v @ '' with vanilla tf branch''"

definition client_request_token :: string where
  "client_request_token = ''request_token''"

definition push_command :: "py_value \<Rightarrow> string" where
  "push_command v = ''git push --set-upstream origin '' @ sync_branch v"

definition pr_command :: "py_value \<Rightarrow> string" where
  "pr_command v =
     ''aws codecommit create-pull-request''
     @ '' --title '' @ [CHR 0x22] @ pr_title v @ [CHR 0x22]
     @ '' --description '' @ [CHR 0x22] @ pr_description v @ [CHR 0x22]
     @ '' --client-request-token '' @ client_request_token
     @ '' --targets repositoryName=aws-tensorflow,sourceReference='' @ sync_branch v
     @ '',destinationReference='' @ tf_branch v"

text \<open>
  The seven calls that precede the test of the output, in the order of lines 17 to 25
  (section 4.1, step 3, a to g, of the specification).
\<close>

definition ordered_steps :: "py_value \<Rightarrow> event list" where
  "ordered_steps v =
     [System ''git clone codecommit::us-west-2://aws-tensorflow'',
      Chdir ''aws-tensorflow/'',
      System (''git checkout '' @ tf_branch v),
      System (''git checkout -b '' @ sync_branch v),
      System ''git remote add google https://github.com/tensorflow/tensorflow.git'',
      Run (pull_argv v),
      System ''git status'']"

text \<open>The whole trace up to the test of the output, the two \<^verbatim>\<open>print\<close> calls included.\<close>

definition before_decision :: "py_value \<Rightarrow> string \<Rightarrow> trace" where
  "before_decision v output =
     [System ''git clone codecommit::us-west-2://aws-tensorflow'',
      Chdir ''aws-tensorflow/'',
      System (''git checkout '' @ tf_branch v),
      System (''git checkout -b '' @ sync_branch v),
      System ''git remote add google https://github.com/tensorflow/tensorflow.git'',
      Print (''git pull --commit google '' @ git_branch v @ [CHR 0x0A]),
      Run (pull_argv v),
      Print (output @ [CHR 0x0A]),
      System ''git status'']"

subsection \<open>Reading a trace\<close>

text \<open>The calls that leave the interpreter for another program or directory: everything but the \<^verbatim>\<open>print\<close> calls.\<close>

definition external_calls :: "trace \<Rightarrow> trace" where
  "external_calls t = filter (\<lambda>e. \<not> is_print e) t"

text \<open>What the run did after \<^verbatim>\<open>git status\<close>: the outcome of the test of the output.\<close>

definition after_status :: "trace \<Rightarrow> trace" where
  "after_status t = tl (dropWhile (\<lambda>e. e \<noteq> System ''git status'') t)"

fun is_push :: "event \<Rightarrow> bool" where
  "is_push (System c) = prefix ''git push'' c"
| "is_push _ = False"

fun is_pull_request :: "event \<Rightarrow> bool" where
  "is_pull_request (System c) = prefix ''aws codecommit create-pull-request'' c"
| "is_pull_request _ = False"

subsection \<open>Runs that reach the test of the output\<close>

text \<open>\<^verbatim>\<open>os.system(cmd)\<close> returns an exit status, zero or not, rather than raising.\<close>

definition returns :: "world \<Rightarrow> string \<Rightarrow> bool" where
  "returns w cmd = (case system_result w cmd of Inl e \<Rightarrow> False | Inr status \<Rightarrow> True)"

text \<open>
  No call before the test on line 26 raises, and the text captured from the pull is
  \<open>output\<close>: the five commands up to the status return (with any exit status), the
  directory can be entered, the pull returns bytes that decode to \<open>output\<close>, and the first
  two \<^verbatim>\<open>print\<close> calls succeed.
\<close>

definition reaches_decision :: "world \<Rightarrow> py_value \<Rightarrow> string \<Rightarrow> bool" where
  "reaches_decision w v output \<longleftrightarrow>
     returns w ''git clone codecommit::us-west-2://aws-tensorflow''
     \<and> chdir_error w ''aws-tensorflow/'' = None
     \<and> returns w (''git checkout '' @ tf_branch v)
     \<and> returns w (''git checkout -b '' @ sync_branch v)
     \<and> returns w ''git remote add google https://github.com/tensorflow/tensorflow.git''
     \<and> print_error w 0 (''git pull --commit google '' @ git_branch v @ [CHR 0x0A]) = None
     \<and> (case run_result w (pull_argv v) of
           Inl e \<Rightarrow> False
         | Inr p \<Rightarrow> stdout_decoded p = Inr output)
     \<and> print_error w 1 (output @ [CHR 0x0A]) = None
     \<and> returns w ''git status''"

subsection \<open>A concrete environment\<close>

text \<open>
  Every command exits with status 0, the directory can be entered, every \<^verbatim>\<open>print\<close>
  succeeds, and the pull returns \<open>rc\<close> after printing \<open>out\<close> on standard output and \<open>err\<close>
  on standard error.
\<close>

definition demo_world :: "int \<Rightarrow> string \<Rightarrow> string \<Rightarrow> world" where
  "demo_world rc out err =
     \<lparr>system_result = (\<lambda>_. Inr 0),
      chdir_error = (\<lambda>_. None),
      run_result = (\<lambda>_. Inr \<lparr>returncode = rc, stdout_decoded = Inr out, stderr_text = err\<rparr>),
      print_error = (\<lambda>_ _. None)\<rparr>"


subsection \<open>Runs as initial parts of a sequence of calls\<close>

text \<open>
  A continuation of the run \<open>stays_within\<close> a list of calls when, from any trace, the calls it
  adds (other than \<^verbatim>\<open>print\<close>) are an initial part of that list.
\<close>

definition stays_within :: "(trace \<Rightarrow> trace \<times> py_error option) \<Rightarrow> event list \<Rightarrow> bool" where
  "stays_within k steps \<longleftrightarrow>
     (\<forall>t. \<exists>made. prefix made steps \<and> external_calls (fst (k t)) = external_calls t @ made)"

section \<open>Properties\<close>

subsection \<open>The substring test\<close>

lemma py_in_iff_sublist: "py_in needle hay \<longleftrightarrow> sublist needle hay"
  by (induction hay) (auto simp: sublist_Cons_right)

lemma py_in_iff: "py_in needle hay \<longleftrightarrow> (\<exists>ps ss. hay = ps @ needle @ ss)"
  by (simp add: py_in_iff_sublist sublist_def)

subsection \<open>The paths through main\<close>

lemmas main_unfold = main_def seq_def finish_def os_system_def os_chdir_def subprocess_run_def
  decode_stdout_def py_print_def tf_branch_def git_branch_def sync_branch_def pull_argv_def Let_def

lemma returnsE: "returns w cmd \<Longrightarrow> \<exists>status. system_result w cmd = Inr status"
  by (cases "system_result w cmd") (simp_all add: returns_def)

text \<open>A run that reaches the test: what it does there, and how it ends.\<close>

lemma main_decided:
  assumes "reaches_decision w v output"
  shows "main v w =
    (if py_in ''Already up to date'' output
     then (before_decision v output @ [Print (''Branch already up to date.'' @ [CHR 0x0A])],
           print_error w 2 (''Branch already up to date.'' @ [CHR 0x0A]))
     else (case system_result w (push_command v) of
             Inl e \<Rightarrow> (before_decision v output @ [System (push_command v)], Some e)
           | Inr pushed \<Rightarrow>
               (before_decision v output @ [System (push_command v), System (pr_command v)],
                case system_result w (pr_command v) of Inl e \<Rightarrow> Some e | Inr created \<Rightarrow> None)))"
proof -
  from assms obtain s1 s2 s3 s4 s5 p where facts:
    "system_result w ''git clone codecommit::us-west-2://aws-tensorflow'' = Inr s1"
    "chdir_error w ''aws-tensorflow/'' = None"
    "system_result w (''git checkout '' @ tf_branch v) = Inr s2"
    "system_result w (''git checkout -b '' @ sync_branch v) = Inr s3"
    "system_result w ''git remote add google https://github.com/tensorflow/tensorflow.git'' = Inr s4"
    "print_error w 0 (''git pull --commit google '' @ git_branch v @ [CHR 0x0A]) = None"
    "run_result w (pull_argv v) = Inr p"
    "stdout_decoded p = Inr output"
    "print_error w 1 (output @ [CHR 0x0A]) = None"
    "system_result w ''git status'' = Inr s5"
    unfolding reaches_decision_def
    by (auto dest!: returnsE split: sum.splits)
  show ?thesis
    using facts
    by (simp add: main_unfold before_decision_def push_command_def pr_command_def pr_title_def
        pr_description_def client_request_token_def numeral_2_eq_2 split: sum.split option.split)
qed

lemma after_status_decided: "after_status (before_decision v output @ rest) = rest"
  by (simp add: after_status_def before_decision_def)

lemma external_calls_decided:
  "external_calls (before_decision v output @ rest) = ordered_steps v @ external_calls rest"
  by (simp add: external_calls_def before_decision_def ordered_steps_def)

lemma no_push_before: "filter is_push (before_decision v output) = []"
  by (simp add: before_decision_def)

lemma no_pr_before: "filter is_pull_request (before_decision v output) = []"
  by (simp add: before_decision_def)

lemma filter_decision_sync:
  "filter is_push [System (push_command v), System (pr_command v)] = [System (push_command v)]"
  "filter is_pull_request [System (push_command v), System (pr_command v)] = [System (pr_command v)]"
  by (simp_all add: push_command_def pr_command_def)

text \<open>The version enters a run only through the text that \<^verbatim>\<open>str.format\<close> inserts for it.\<close>

lemma main_format_only:
  assumes "py_format_value v = py_format_value v'"
  shows "main v w = main v' w"
  unfolding main_def assms ..

subsection \<open>The concrete environment\<close>

lemma reaches_decision_demo_world: "reaches_decision (demo_world rc out err) v out"
  by (simp add: reaches_decision_def demo_world_def returns_def)

lemma returns_demo_world: "returns (demo_world rc out err) cmd"
  by (simp add: demo_world_def returns_def)

subsection \<open>The three ways a run that reached the test ends\<close>

lemma main_noop:
  assumes "reaches_decision w v output" and "py_in ''Already up to date'' output"
  shows "main v w =
    (before_decision v output @ [Print (''Branch already up to date.'' @ [CHR 0x0A])],
     print_error w 2 (''Branch already up to date.'' @ [CHR 0x0A]))"
  using main_decided [OF assms(1)] assms(2) by simp

lemma main_sync_pushed:
  assumes "reaches_decision w v output" and "\<not> py_in ''Already up to date'' output"
    and "returns w (push_command v)"
  shows "main v w =
    (before_decision v output @ [System (push_command v), System (pr_command v)],
     case system_result w (pr_command v) of Inl e \<Rightarrow> Some e | Inr created \<Rightarrow> None)"
proof -
  obtain status where "system_result w (push_command v) = Inr status"
    using returnsE [OF assms(3)] by blast
  then show ?thesis
    using main_decided [OF assms(1)] assms(2) by simp
qed

lemma main_sync_push_raised:
  assumes "reaches_decision w v output" and "\<not> py_in ''Already up to date'' output"
    and "system_result w (push_command v) = Inl e"
  shows "main v w = (before_decision v output @ [System (push_command v)], Some e)"
  using main_decided [OF assms(1)] assms(2,3) by simp



lemma external_calls_after_status:
  assumes "reaches_decision w v output"
  shows "external_calls (fst (main v w)) = ordered_steps v @ external_calls (after_status (fst (main v w)))"
proof (cases "py_in ''Already up to date'' output")
  case True
  show ?thesis
    unfolding main_noop [OF assms True] fst_conv external_calls_decided after_status_decided ..
next
  case False
  show ?thesis
  proof (cases "system_result w (push_command v)")
    case (Inl e)
    show ?thesis
      unfolding main_sync_push_raised [OF assms False Inl] fst_conv external_calls_decided
        after_status_decided ..
  next
    case (Inr status)
    then have "returns w (push_command v)"
      by (simp add: returns_def)
    note m = main_sync_pushed [OF assms False this]
    show ?thesis
      unfolding m fst_conv external_calls_decided after_status_decided ..
  qed
qed

subsection \<open>Every run is an initial part of one sequence of calls\<close>

lemma stays_withinI:
  assumes "\<And>t. \<exists>made. prefix made steps \<and> external_calls (fst (k t)) = external_calls t @ made"
  shows "stays_within k steps"
  using assms unfolding stays_within_def by blast

lemma stays_withinD:
  assumes "stays_within k steps"
  obtains made where "prefix made steps" "external_calls (fst (k t)) = external_calls t @ made"
  using assms unfolding stays_within_def by blast

lemma stays_within_finish: "stays_within finish steps"
  by (rule stays_withinI) (simp add: finish_def)

lemma stays_within_system:
  assumes "stays_within k steps" and "e = System c"
  shows "stays_within (seq (os_system w c) (\<lambda>status. k)) (e # steps)"
proof (rule stays_withinI)
  fix t
  show "\<exists>made. prefix made (e # steps)
      \<and> external_calls (fst (seq (os_system w c) (\<lambda>status. k) t)) = external_calls t @ made"
  proof (cases "system_result w c")
    case (Inl err)
    then have "external_calls (fst (seq (os_system w c) (\<lambda>status. k) t)) = external_calls t @ [e]"
      using assms(2) by (simp add: seq_def os_system_def external_calls_def)
    then show ?thesis by (intro exI [of _ "[e]"]) simp
  next
    case (Inr status)
    obtain made where m: "prefix made steps"
      "external_calls (fst (k (t @ [System c]))) = external_calls (t @ [System c]) @ made"
      using assms(1) by (rule stays_withinD)
    have "external_calls (fst (seq (os_system w c) (\<lambda>status. k) t)) = external_calls t @ (e # made)"
      using Inr m(2) assms(2) by (simp add: seq_def os_system_def external_calls_def)
    then show ?thesis using m(1) by (intro exI [of _ "e # made"]) simp
  qed
qed

lemma stays_within_chdir:
  assumes "stays_within k steps" and "e = Chdir d"
  shows "stays_within (seq (os_chdir w d) (\<lambda>u. k)) (e # steps)"
proof (rule stays_withinI)
  fix t
  show "\<exists>made. prefix made (e # steps)
      \<and> external_calls (fst (seq (os_chdir w d) (\<lambda>u. k) t)) = external_calls t @ made"
  proof (cases "chdir_error w d")
    case (Some err)
    then have "external_calls (fst (seq (os_chdir w d) (\<lambda>u. k) t)) = external_calls t @ [e]"
      using assms(2) by (simp add: seq_def os_chdir_def external_calls_def)
    then show ?thesis by (intro exI [of _ "[e]"]) simp
  next
    case None
    obtain made where m: "prefix made steps"
      "external_calls (fst (k (t @ [Chdir d]))) = external_calls (t @ [Chdir d]) @ made"
      using assms(1) by (rule stays_withinD)
    have "external_calls (fst (seq (os_chdir w d) (\<lambda>u. k) t)) = external_calls t @ (e # made)"
      using None m(2) assms(2) by (simp add: seq_def os_chdir_def external_calls_def)
    then show ?thesis using m(1) by (intro exI [of _ "e # made"]) simp
  qed
qed

lemma stays_within_run:
  assumes "\<And>p. stays_within (k p) steps" and "e = Run argv"
  shows "stays_within (seq (subprocess_run w argv) k) (e # steps)"
proof (rule stays_withinI)
  fix t
  show "\<exists>made. prefix made (e # steps)
      \<and> external_calls (fst (seq (subprocess_run w argv) k t)) = external_calls t @ made"
  proof (cases "run_result w argv")
    case (Inl err)
    then have "external_calls (fst (seq (subprocess_run w argv) k t)) = external_calls t @ [e]"
      using assms(2) by (simp add: seq_def subprocess_run_def external_calls_def)
    then show ?thesis by (intro exI [of _ "[e]"]) simp
  next
    case (Inr p)
    obtain made where m: "prefix made steps"
      "external_calls (fst (k p (t @ [Run argv]))) = external_calls (t @ [Run argv]) @ made"
      using assms(1) [of p] by (rule stays_withinD)
    have "external_calls (fst (seq (subprocess_run w argv) k t)) = external_calls t @ (e # made)"
      using Inr m(2) assms(2) by (simp add: seq_def subprocess_run_def external_calls_def)
    then show ?thesis using m(1) by (intro exI [of _ "e # made"]) simp
  qed
qed

lemma stays_within_decode:
  assumes "\<And>captured. stays_within (k captured) steps"
  shows "stays_within (seq (decode_stdout p) k) steps"
proof (rule stays_withinI)
  fix t
  show "\<exists>made. prefix made steps
      \<and> external_calls (fst (seq (decode_stdout p) k t)) = external_calls t @ made"
  proof (cases "stdout_decoded p")
    case (Inl err)
    then have "external_calls (fst (seq (decode_stdout p) k t)) = external_calls t @ []"
      by (simp add: seq_def decode_stdout_def)
    then show ?thesis by (intro exI [of _ "[]"]) simp
  next
    case (Inr captured)
    obtain made where m: "prefix made steps"
      "external_calls (fst (k captured t)) = external_calls t @ made"
      using assms [of captured] by (rule stays_withinD)
    have "external_calls (fst (seq (decode_stdout p) k t)) = external_calls t @ made"
      using Inr m(2) by (simp add: seq_def decode_stdout_def)
    then show ?thesis using m(1) by blast
  qed
qed

lemma stays_within_print:
  assumes "stays_within k steps"
  shows "stays_within (seq (py_print w args) (\<lambda>u. k)) steps"
proof (rule stays_withinI)
  fix t
  let ?line = "join_spaces args @ [CHR 0x0A]"
  show "\<exists>made. prefix made steps
      \<and> external_calls (fst (seq (py_print w args) (\<lambda>u. k) t)) = external_calls t @ made"
  proof (cases "print_error w (length (filter is_print t)) ?line")
    case (Some err)
    then have "external_calls (fst (seq (py_print w args) (\<lambda>u. k) t)) = external_calls t @ []"
      by (simp add: seq_def py_print_def external_calls_def)
    then show ?thesis by (intro exI [of _ "[]"]) simp
  next
    case None
    obtain made where m: "prefix made steps"
      "external_calls (fst (k (t @ [Print ?line]))) = external_calls (t @ [Print ?line]) @ made"
      using assms by (rule stays_withinD)
    have "external_calls (fst (seq (py_print w args) (\<lambda>u. k) t)) = external_calls t @ made"
      using None m(2) by (simp add: seq_def py_print_def external_calls_def)
    then show ?thesis using m(1) by blast
  qed
qed

lemma stays_within_if:
  assumes "stays_within k1 steps" and "stays_within k2 steps"
  shows "stays_within (if b then k1 else k2) steps"
  using assms by simp

text \<open>
  Whatever the environment answers, the calls of a run other than \<^verbatim>\<open>print\<close> are an initial
  part of one fixed sequence: a run can stop early, it cannot reorder or skip.
\<close>

lemma external_calls_main_prefix:
  "prefix (external_calls (fst (main v w)))
     (ordered_steps v @ [System (push_command v), System (pr_command v)])"
proof -
  have "stays_within
     (seq (os_system w ''git clone codecommit::us-west-2://aws-tensorflow'') (\<lambda>_.
      seq (os_chdir w ''aws-tensorflow/'') (\<lambda>_.
      seq (os_system w (''git checkout '' @ ''r'' @ py_format_value v @ ''_aws'')) (\<lambda>_.
      seq (os_system w (''git checkout -b r'' @ py_format_value v @ ''_aws_git'')) (\<lambda>_.
      seq (os_system w ''git remote add google https://github.com/tensorflow/tensorflow.git'') (\<lambda>_.
      seq (py_print w [''git'', ''pull'', ''--commit'', ''google'', ''r'' @ py_format_value v]) (\<lambda>_.
      seq (subprocess_run w [''git'', ''pull'', ''--commit'', ''google'', ''r'' @ py_format_value v]) (\<lambda>p.
      seq (decode_stdout p) (\<lambda>output.
      seq (py_print w [output]) (\<lambda>_.
      seq (os_system w ''git status'') (\<lambda>_.
      if py_in ''Already up to date'' output
      then
        seq (py_print w [''Branch already up to date.'']) (\<lambda>_. finish)
      else
        seq (os_system w
              (''git push --set-upstream origin r'' @ py_format_value v @ ''_aws_git'')) (\<lambda>_.
        seq (os_system w
              (''aws codecommit create-pull-request --title '' @ [CHR 0x22] @ ''TF''
                @ py_format_value v @ '' git sync'' @ [CHR 0x22]
                @ '' --description '' @ [CHR 0x22] @ ''Sync tf ''
                @ py_format_value v @ '' with vanilla tf branch'' @ [CHR 0x22] @ '' ''
                @ ''--client-request-token request_token --targets repositoryName=aws-tensorflow,sourceReference=r''
                @ py_format_value v @ ''_aws_git,destinationReference='' @ ''r'' @ py_format_value v @ ''_aws'')) (\<lambda>_.
        finish)))))))))))))
     [System ''git clone codecommit::us-west-2://aws-tensorflow'',
      Chdir ''aws-tensorflow/'',
      System (''git checkout '' @ tf_branch v),
      System (''git checkout -b '' @ sync_branch v),
      System ''git remote add google https://github.com/tensorflow/tensorflow.git'',
      Run (pull_argv v),
      System ''git status'',
      System (push_command v),
      System (pr_command v)]"
    by (intro stays_within_system stays_within_chdir stays_within_print stays_within_run
        stays_within_decode stays_within_if stays_within_finish)
      (simp_all add: tf_branch_def sync_branch_def git_branch_def pull_argv_def push_command_def
        pr_command_def pr_title_def pr_description_def client_request_token_def)
  then obtain made where
    "prefix made (ordered_steps v @ [System (push_command v), System (pr_command v)])"
    "external_calls (fst (main v w)) = external_calls [] @ made"
    unfolding main_def Let_def ordered_steps_def append_Cons append_Nil
    by (rule stays_withinD)
  then show ?thesis
    by (simp add: external_calls_def)
qed

subsection \<open>Exit statuses and standard error\<close>






lemma reaches_decision_stderr:
  assumes "reaches_decision w v captured" and "run_result w (pull_argv v) = Inr p"
  shows "reaches_decision
     (w\<lparr>run_result := (run_result w)(pull_argv v := Inr (p\<lparr>stderr_text := err, returncode := rc\<rparr>))\<rparr>)
     v captured"
  using assms by (simp add: reaches_decision_def returns_def)

section \<open>The claims\<close>

subsection \<open>C1: the derived branch names\<close>

text \<open>
  C1 as stated does not hold: for the version \<^verbatim>\<open>2.4\<close> the script's target branch is not
  \<^verbatim>\<open>r2.4_vendor\<close> and its sync branch is not \<^verbatim>\<open>r2.4_vendor_sync\<close>.
\<close>

theorem derived_branch_names_vendor_counterexample:
  "tf_branch (PyStr ''2.4'') \<noteq> ''r'' @ ''2.4'' @ ''_vendor''
   \<and> sync_branch (PyStr ''2.4'') \<noteq> ''r'' @ ''2.4'' @ ''_vendor_sync''"
  by (simp add: tf_branch_def sync_branch_def)

text \<open>
  C1, amended: for every version value the target branch is \<^verbatim>\<open>r{v}_aws\<close>, the upstream
  branch is \<^verbatim>\<open>r{v}\<close> and the sync branch is \<^verbatim>\<open>r{v}_aws_git\<close>, which is the target branch
  name with \<^verbatim>\<open>_git\<close> appended; a version given as text is inserted unchanged.
\<close>

theorem derived_branch_names:
  "tf_branch v = ''r'' @ py_format_value v @ ''_aws''
   \<and> git_branch v = ''r'' @ py_format_value v
   \<and> sync_branch v = ''r'' @ py_format_value v @ ''_aws_git''
   \<and> sync_branch v = tf_branch v @ ''_git''
   \<and> py_format_value (PyStr s) = s"
  by (simp add: tf_branch_def git_branch_def sync_branch_def)

subsection \<open>C2: output that contains the marker\<close>

text \<open>
  C2: when the run reaches the test of the output and the text captured from the pull contains
  \<^verbatim>\<open>Already up to date\<close>, with any text before and after it, the only thing the run does after
  \<^verbatim>\<open>git status\<close> is print the message; it ends as that \<^verbatim>\<open>print\<close> ends (normally when the message
  is written), and its trace holds no push and no pull-request command.
\<close>

theorem up_to_date_is_noop:
  assumes "reaches_decision w v (before @ ''Already up to date'' @ after)"
  shows "after_status (fst (main v w)) = [Print (''Branch already up to date.'' @ [CHR 0x0A])]
    \<and> snd (main v w) = print_error w 2 (''Branch already up to date.'' @ [CHR 0x0A])
    \<and> filter is_push (fst (main v w)) = []
    \<and> filter is_pull_request (fst (main v w)) = []"
proof -
  have "py_in ''Already up to date'' (before @ ''Already up to date'' @ after)"
    unfolding py_in_iff by blast
  note m = main_noop [OF assms this]
  show ?thesis
    unfolding m fst_conv snd_conv after_status_decided filter_append no_push_before no_pr_before
    by simp
qed

text \<open>
  C2 at a concrete run: version \<^verbatim>\<open>2.4\<close>, the marker in the middle of the output.
\<close>

theorem up_to_date_is_noop_witness:
  "reaches_decision (demo_world 0 ''From github: Already up to date. bye'' '''') (PyStr ''2.4'')
      (''From github: '' @ ''Already up to date'' @ ''. bye'')
   \<and> snd (main (PyStr ''2.4'') (demo_world 0 ''From github: Already up to date. bye'' '''')) = None
   \<and> after_status (fst (main (PyStr ''2.4'') (demo_world 0 ''From github: Already up to date. bye'' '''')))
       = [Print (''Branch already up to date.'' @ [CHR 0x0A])]
   \<and> filter is_push (fst (main (PyStr ''2.4'') (demo_world 0 ''From github: Already up to date. bye'' ''''))) = []
   \<and> filter is_pull_request (fst (main (PyStr ''2.4'') (demo_world 0 ''From github: Already up to date. bye'' ''''))) = []"
proof -
  have r: "reaches_decision (demo_world 0 ''From github: Already up to date. bye'' '''') (PyStr ''2.4'')
      (''From github: '' @ ''Already up to date'' @ ''. bye'')"
    using reaches_decision_demo_world
      [where rc = 0 and out = "''From github: Already up to date. bye''" and err = "''''"
        and v = "PyStr ''2.4''"]
    by simp
  show ?thesis
    using r up_to_date_is_noop [OF r] by (simp add: demo_world_def)
qed

subsection \<open>C3: output that does not contain the marker\<close>

text \<open>
  C3: when the run reaches the test of the output, the text captured from the pull does not
  contain \<^verbatim>\<open>Already up to date\<close>, and \<^verbatim>\<open>os.system\<close> returns for the push and for the pull request
  (with any exit status), the run ends without an exception and does exactly two things after
  \<^verbatim>\<open>git status\<close>: it pushes the sync branch with \<^verbatim>\<open>--set-upstream origin\<close>, then creates the pull
  request from the sync branch into the target branch; there is one push and one pull-request
  command in the trace.
\<close>

theorem not_up_to_date_is_sync:
  assumes "reaches_decision w v output"
    and "\<not> (\<exists>before after. output = before @ ''Already up to date'' @ after)"
    and "returns w (push_command v)"
    and "returns w (pr_command v)"
  shows "snd (main v w) = None
    \<and> after_status (fst (main v w)) =
        [System (''git push --set-upstream origin '' @ sync_branch v),
         System (''aws codecommit create-pull-request''
                 @ '' --title '' @ [CHR 0x22] @ pr_title v @ [CHR 0x22]
                 @ '' --description '' @ [CHR 0x22] @ pr_description v @ [CHR 0x22]
                 @ '' --client-request-token '' @ client_request_token
                 @ '' --targets repositoryName=aws-tensorflow,sourceReference='' @ sync_branch v
                 @ '',destinationReference='' @ tf_branch v)]
    \<and> filter is_push (fst (main v w)) = [System (''git push --set-upstream origin '' @ sync_branch v)]
    \<and> length (filter is_pull_request (fst (main v w))) = 1"
proof -
  have n: "\<not> py_in ''Already up to date'' output"
    using assms(2) unfolding py_in_iff .
  obtain status where "system_result w (pr_command v) = Inr status"
    using returnsE [OF assms(4)] by blast
  then have m: "main v w =
      (before_decision v output @ [System (push_command v), System (pr_command v)], None)"
    using main_sync_pushed [OF assms(1) n assms(3)] by simp
  show ?thesis
    unfolding m fst_conv snd_conv after_status_decided filter_append no_push_before no_pr_before
      filter_decision_sync
    by (simp add: push_command_def pr_command_def)
qed

text \<open>
  C3 at two concrete runs of version \<^verbatim>\<open>2.6\<close>: the empty output, and the output of a fast-forward.
\<close>

theorem not_up_to_date_is_sync_witness:
  "reaches_decision (demo_world 0 '''' '''') (PyStr ''2.6'') ''''
   \<and> \<not> py_in ''Already up to date'' ''''
   \<and> snd (main (PyStr ''2.6'') (demo_world 0 '''' '''')) = None
   \<and> after_status (fst (main (PyStr ''2.6'') (demo_world 0 '''' ''''))) =
        [System ''git push --set-upstream origin r2.6_aws_git'',
         System (''aws codecommit create-pull-request --title '' @ [CHR 0x22] @ ''TF2.6 git sync'' @ [CHR 0x22]
                 @ '' --description '' @ [CHR 0x22] @ ''Sync tf 2.6 with vanilla tf branch'' @ [CHR 0x22]
                 @ '' --client-request-token request_token --targets repositoryName=aws-tensorflow,sourceReference=r2.6_aws_git,destinationReference=r2.6_aws'')]
   \<and> reaches_decision (demo_world 0 ''Updating abc123..def456'' '''') (PyStr ''2.6'') ''Updating abc123..def456''
   \<and> filter is_push (fst (main (PyStr ''2.6'') (demo_world 0 ''Updating abc123..def456'' '''')))
       = [System ''git push --set-upstream origin r2.6_aws_git'']"
proof -
  have n1: "\<not> (\<exists>before after. '''' = before @ ''Already up to date'' @ after)"
    by simp
  have n2: "\<not> (\<exists>before after. ''Updating abc123..def456'' = before @ ''Already up to date'' @ after)"
    unfolding py_in_iff [symmetric] by simp
  have r1: "reaches_decision (demo_world 0 '''' '''') (PyStr ''2.6'') ''''"
    by (rule reaches_decision_demo_world)
  have r2: "reaches_decision (demo_world 0 ''Updating abc123..def456'' '''') (PyStr ''2.6'')
      ''Updating abc123..def456''"
    by (rule reaches_decision_demo_world)
  show ?thesis
    using not_up_to_date_is_sync [OF r1 n1 returns_demo_world returns_demo_world]
      not_up_to_date_is_sync [OF r2 n2 returns_demo_world returns_demo_world] r1 r2
    by (simp add: sync_branch_def tf_branch_def pr_title_def pr_description_def client_request_token_def)
qed

subsection \<open>C4: the literal that is tested\<close>

text \<open>
  C4 as stated does not hold: the output \<^verbatim>\<open>Already up to date.\<close> of git is classified as up to
  date although it does not contain the lowercase \<^verbatim>\<open>already up to date\<close>, and the output
  \<^verbatim>\<open>already up to date\<close>, which does contain it, is not classified as up to date.
\<close>

theorem lowercase_marker_counterexample:
  "after_status (fst (main (PyStr ''2.4'') (demo_world 0 ''Already up to date.'' '''')))
     = [Print (''Branch already up to date.'' @ [CHR 0x0A])]
   \<and> \<not> py_in ''already up to date'' ''Already up to date.''
   \<and> py_in ''already up to date'' ''already up to date''
   \<and> after_status (fst (main (PyStr ''2.4'') (demo_world 0 ''already up to date'' '''')))
     \<noteq> [Print (''Branch already up to date.'' @ [CHR 0x0A])]"
proof -
  have r1: "reaches_decision (demo_world 0 ''Already up to date.'' '''') (PyStr ''2.4'')
      ''Already up to date.''"
    by (rule reaches_decision_demo_world)
  have r2: "reaches_decision (demo_world 0 ''already up to date'' '''') (PyStr ''2.4'')
      ''already up to date''"
    by (rule reaches_decision_demo_world)
  have y: "py_in ''Already up to date'' ''Already up to date.''"
    by simp
  have n: "\<not> py_in ''Already up to date'' ''already up to date''"
    by simp
  have a: "after_status (fst (main (PyStr ''2.4'') (demo_world 0 ''Already up to date.'' '''')))
     = [Print (''Branch already up to date.'' @ [CHR 0x0A])]"
    unfolding main_noop [OF r1 y] fst_conv after_status_decided ..
  have b: "after_status (fst (main (PyStr ''2.4'') (demo_world 0 ''already up to date'' '''')))
     = [System (push_command (PyStr ''2.4'')), System (pr_command (PyStr ''2.4''))]"
    unfolding main_sync_pushed [OF r2 n returns_demo_world] fst_conv after_status_decided ..
  show ?thesis
    unfolding a b by simp
qed

text \<open>
  C4, amended: the test is for the literal \<^verbatim>\<open>Already up to date\<close> with a capital A, case-sensitively:
  a run that reaches the test takes the up-to-date path if and only if the captured output
  contains that exact literal.
\<close>

theorem marker_is_capitalised_literal:
  assumes "reaches_decision w v output"
  shows "(after_status (fst (main v w)) = [Print (''Branch already up to date.'' @ [CHR 0x0A])])
         \<longleftrightarrow> (\<exists>before after. output = before @ ''Already up to date'' @ after)"
proof (cases "py_in ''Already up to date'' output")
  case True
  then show ?thesis
    unfolding main_noop [OF assms True] fst_conv after_status_decided py_in_iff [symmetric]
    by simp
next
  case False
  show ?thesis
  proof (cases "system_result w (push_command v)")
    case (Inl e)
    show ?thesis
      unfolding main_sync_push_raised [OF assms False Inl] fst_conv after_status_decided
        py_in_iff [symmetric]
      using False by simp
  next
    case (Inr status)
    then have "returns w (push_command v)"
      by (simp add: returns_def)
    note m = main_sync_pushed [OF assms False this]
    show ?thesis
      unfolding m fst_conv after_status_decided py_in_iff [symmetric]
      using False by simp
  qed
qed

text \<open>
  C4, amended, at a concrete run: the default version and the output \<^verbatim>\<open>Already up to date.\<close>.
\<close>

theorem marker_is_capitalised_literal_witness:
  "reaches_decision (demo_world 0 ''Already up to date.'' '''') PyFloat_2_4 ''Already up to date.''
   \<and> ((after_status (fst (main PyFloat_2_4 (demo_world 0 ''Already up to date.'' '''')))
          = [Print (''Branch already up to date.'' @ [CHR 0x0A])])
        \<longleftrightarrow> (\<exists>before after. ''Already up to date.'' = before @ ''Already up to date'' @ after))"
proof -
  have r: "reaches_decision (demo_world 0 ''Already up to date.'' '''') PyFloat_2_4 ''Already up to date.''"
    by (rule reaches_decision_demo_world)
  show ?thesis
    using marker_is_capitalised_literal [OF r] r by simp
qed

subsection \<open>C5: the pull-request command\<close>

text \<open>
  C5: on the sync path (the run reaches the test, the output lacks the marker and the push
  returns) the one pull-request command of the run carries the version text in its title and
  in its description, names the sync branch as source and the target branch as destination,
  and its client request token is the constant \<^verbatim>\<open>request_token\<close>. The command is the last
  call of the run.
\<close>

theorem pull_request_command:
  assumes "reaches_decision w v output"
    and "\<not> py_in ''Already up to date'' output"
    and "returns w (push_command v)"
  shows "filter is_pull_request (fst (main v w)) =
      [System (''aws codecommit create-pull-request''
               @ '' --title '' @ [CHR 0x22] @ ''TF'' @ py_format_value v @ '' git sync'' @ [CHR 0x22]
               @ '' --description '' @ [CHR 0x22] @ ''Sync tf '' @ py_format_value v
                   @ '' with vanilla tf branch'' @ [CHR 0x22]
               @ '' --client-request-token '' @ ''request_token''
               @ '' --targets repositoryName=aws-tensorflow''
               @ '',sourceReference='' @ sync_branch v
               @ '',destinationReference='' @ tf_branch v)]
    \<and> last (fst (main v w)) = System (pr_command v)
    \<and> pr_title v = ''TF'' @ py_format_value v @ '' git sync''
    \<and> pr_description v = ''Sync tf '' @ py_format_value v @ '' with vanilla tf branch''
    \<and> client_request_token = ''request_token''"
proof -
  note m = main_sync_pushed [OF assms]
  show ?thesis
    unfolding m fst_conv filter_append no_pr_before filter_decision_sync
    by (simp add: pr_command_def pr_title_def pr_description_def client_request_token_def)
qed

text \<open>
  C5 at a concrete run: version \<^verbatim>\<open>2.6\<close> and the output of a fast-forward.
\<close>

theorem pull_request_command_witness:
  "reaches_decision (demo_world 0 ''Updating abc123..def456'' '''') (PyStr ''2.6'') ''Updating abc123..def456''
   \<and> \<not> py_in ''Already up to date'' ''Updating abc123..def456''
   \<and> filter is_pull_request (fst (main (PyStr ''2.6'') (demo_world 0 ''Updating abc123..def456'' ''''))) =
      [System (''aws codecommit create-pull-request --title '' @ [CHR 0x22] @ ''TF2.6 git sync'' @ [CHR 0x22]
               @ '' --description '' @ [CHR 0x22] @ ''Sync tf 2.6 with vanilla tf branch'' @ [CHR 0x22]
               @ '' --client-request-token request_token --targets repositoryName=aws-tensorflow,sourceReference=r2.6_aws_git,destinationReference=r2.6_aws'')]"
proof -
  have n: "\<not> py_in ''Already up to date'' ''Updating abc123..def456''"
    by simp
  have r: "reaches_decision (demo_world 0 ''Updating abc123..def456'' '''') (PyStr ''2.6'')
      ''Updating abc123..def456''"
    by (rule reaches_decision_demo_world)
  show ?thesis
    using pull_request_command [OF r n returns_demo_world] r n
    by (simp add: sync_branch_def tf_branch_def)
qed

subsection \<open>C6: the order of the calls\<close>

text \<open>
  C6: in every run the calls other than \<^verbatim>\<open>print\<close> are an initial part of the sequence clone, change
  directory, check out the target branch, create the sync branch, add the remote, pull,
  status, push, pull request: no call is made before one listed earlier. A run that reaches
  the test of the output has made exactly the first seven before it, and whatever it does
  next comes after them.
\<close>

theorem steps_in_order:
  "prefix (external_calls (fst (main v w)))
     (ordered_steps v @ [System (push_command v), System (pr_command v)])
   \<and> (reaches_decision w v captured \<longrightarrow>
        external_calls (fst (main v w))
          = ordered_steps v @ external_calls (after_status (fst (main v w))))"
  using external_calls_main_prefix [of v w] external_calls_after_status [of w v captured]
  by blast

text \<open>
  C6 at a concrete run: version \<^verbatim>\<open>2.4\<close>, output \<^verbatim>\<open>Already up to date.\<close>.
\<close>

theorem steps_in_order_witness:
  "reaches_decision (demo_world 0 ''Already up to date.'' '''') (PyStr ''2.4'') ''Already up to date.''
   \<and> external_calls (fst (main (PyStr ''2.4'') (demo_world 0 ''Already up to date.'' ''''))) =
     [System ''git clone codecommit::us-west-2://aws-tensorflow'',
      Chdir ''aws-tensorflow/'',
      System ''git checkout r2.4_aws'',
      System ''git checkout -b r2.4_aws_git'',
      System ''git remote add google https://github.com/tensorflow/tensorflow.git'',
      Run [''git'', ''pull'', ''--commit'', ''google'', ''r2.4''],
      System ''git status'']
     @ external_calls (after_status (fst (main (PyStr ''2.4'') (demo_world 0 ''Already up to date.'' ''''))))"
proof -
  have r: "reaches_decision (demo_world 0 ''Already up to date.'' '''') (PyStr ''2.4'') ''Already up to date.''"
    by (rule reaches_decision_demo_world)
  show ?thesis
    using steps_in_order [where v = "PyStr ''2.4''" and w = "demo_world 0 ''Already up to date.'' ''''"
        and captured = "''Already up to date.''"] r
    by (simp add: ordered_steps_def pull_argv_def git_branch_def tf_branch_def sync_branch_def)
qed

subsection \<open>C7: one version for all branch names\<close>

text \<open>
  C7: every call of a run is one of nine commands, and each branch name in them is the target,
  upstream or sync branch of the one version value the run was started with. The three names
  determine the version text, so names built from different version texts differ.
\<close>

theorem one_version_in_all_commands:
  "set (external_calls (fst (main v w))) \<subseteq>
     {System ''git clone codecommit::us-west-2://aws-tensorflow'',
      Chdir ''aws-tensorflow/'',
      System (''git checkout '' @ tf_branch v),
      System (''git checkout -b '' @ sync_branch v),
      System ''git remote add google https://github.com/tensorflow/tensorflow.git'',
      Run [''git'', ''pull'', ''--commit'', ''google'', git_branch v],
      System ''git status'',
      System (''git push --set-upstream origin '' @ sync_branch v),
      System (''aws codecommit create-pull-request''
              @ '' --title '' @ [CHR 0x22] @ pr_title v @ [CHR 0x22]
              @ '' --description '' @ [CHR 0x22] @ pr_description v @ [CHR 0x22]
              @ '' --client-request-token '' @ client_request_token
              @ '' --targets repositoryName=aws-tensorflow,sourceReference='' @ sync_branch v
              @ '',destinationReference='' @ tf_branch v)}
   \<and> (tf_branch v = tf_branch v' \<longleftrightarrow> py_format_value v = py_format_value v')
   \<and> (git_branch v = git_branch v' \<longleftrightarrow> py_format_value v = py_format_value v')
   \<and> (sync_branch v = sync_branch v' \<longleftrightarrow> py_format_value v = py_format_value v')"
proof -
  have "set (external_calls (fst (main v w)))
      \<subseteq> set (ordered_steps v @ [System (push_command v), System (pr_command v)])"
    using external_calls_main_prefix by (rule set_mono_prefix)
  then have first: "set (external_calls (fst (main v w))) \<subseteq>
     {System ''git clone codecommit::us-west-2://aws-tensorflow'',
      Chdir ''aws-tensorflow/'',
      System (''git checkout '' @ tf_branch v),
      System (''git checkout -b '' @ sync_branch v),
      System ''git remote add google https://github.com/tensorflow/tensorflow.git'',
      Run [''git'', ''pull'', ''--commit'', ''google'', git_branch v],
      System ''git status'',
      System (''git push --set-upstream origin '' @ sync_branch v),
      System (''aws codecommit create-pull-request''
              @ '' --title '' @ [CHR 0x22] @ pr_title v @ [CHR 0x22]
              @ '' --description '' @ [CHR 0x22] @ pr_description v @ [CHR 0x22]
              @ '' --client-request-token '' @ client_request_token
              @ '' --targets repositoryName=aws-tensorflow,sourceReference='' @ sync_branch v
              @ '',destinationReference='' @ tf_branch v)}"
    by (simp add: ordered_steps_def push_command_def pr_command_def pull_argv_def)
  have names: "(tf_branch v = tf_branch v' \<longleftrightarrow> py_format_value v = py_format_value v')"
    "(git_branch v = git_branch v' \<longleftrightarrow> py_format_value v = py_format_value v')"
    "(sync_branch v = sync_branch v' \<longleftrightarrow> py_format_value v = py_format_value v')"
    by (simp_all add: tf_branch_def git_branch_def sync_branch_def)
  from first names show ?thesis by blast
qed

text \<open>
  C7 at a concrete run: version \<^verbatim>\<open>2.6\<close> on the sync path.
\<close>

theorem one_version_in_all_commands_witness:
  "set (external_calls (fst (main (PyStr ''2.6'') (demo_world 0 ''Updating abc123..def456'' '''')))) \<subseteq>
     {System ''git clone codecommit::us-west-2://aws-tensorflow'',
      Chdir ''aws-tensorflow/'',
      System ''git checkout r2.6_aws'',
      System ''git checkout -b r2.6_aws_git'',
      System ''git remote add google https://github.com/tensorflow/tensorflow.git'',
      Run [''git'', ''pull'', ''--commit'', ''google'', ''r2.6''],
      System ''git status'',
      System ''git push --set-upstream origin r2.6_aws_git'',
      System (''aws codecommit create-pull-request --title '' @ [CHR 0x22] @ ''TF2.6 git sync'' @ [CHR 0x22]
               @ '' --description '' @ [CHR 0x22] @ ''Sync tf 2.6 with vanilla tf branch'' @ [CHR 0x22]
               @ '' --client-request-token request_token --targets repositoryName=aws-tensorflow,sourceReference=r2.6_aws_git,destinationReference=r2.6_aws'')}
   \<and> tf_branch (PyStr ''2.6'') \<noteq> tf_branch (PyStr ''2.4'')"
  using one_version_in_all_commands [of "PyStr ''2.6''" "demo_world 0 ''Updating abc123..def456'' ''''" "PyStr ''2.4''"]
  by (simp add: tf_branch_def git_branch_def sync_branch_def pr_title_def pr_description_def
      client_request_token_def)

subsection \<open>C8: exit statuses\<close>



subsection \<open>C9: the default version\<close>

text \<open>
  C9: without the flag the version is the float \<^verbatim>\<open>2.4\<close>, not a string. The branch names built
  from it are \<^verbatim>\<open>r2.4_aws\<close>, \<^verbatim>\<open>r2.4\<close> and \<^verbatim>\<open>r2.4_aws_git\<close>, the same as for the string \<^verbatim>\<open>2.4\<close>, and
  the whole run is the same.
\<close>

theorem default_version_is_float_2_4:
  "parse_args None = PyFloat_2_4
   \<and> (\<forall>s. parse_args None \<noteq> PyStr s)
   \<and> tf_branch (parse_args None) = ''r2.4_aws''
   \<and> git_branch (parse_args None) = ''r2.4''
   \<and> sync_branch (parse_args None) = ''r2.4_aws_git''
   \<and> tf_branch (parse_args None) = tf_branch (parse_args (Some ''2.4''))
   \<and> git_branch (parse_args None) = git_branch (parse_args (Some ''2.4''))
   \<and> sync_branch (parse_args None) = sync_branch (parse_args (Some ''2.4''))
   \<and> main (parse_args None) w = main (parse_args (Some ''2.4'')) w"
proof -
  have "main (parse_args None) w = main (parse_args (Some ''2.4'')) w"
    by (rule main_format_only) (simp add: parse_args_def)
  then show ?thesis
    by (simp add: parse_args_def tf_branch_def git_branch_def sync_branch_def)
qed

subsection \<open>C10: only standard output decides\<close>

text \<open>
  C10: of what the pull produces, only the text captured from its standard output enters the
  decision. A run that reaches the test takes the up-to-date path exactly when the captured
  text contains the marker; two runs of the same version that reach the test with the same
  captured text begin the same way after \<^verbatim>\<open>git status\<close>; and replacing what the pull wrote to
  standard error (and its return code) by anything else leaves the run unchanged.
\<close>

theorem decision_reads_stdout_only:
  assumes "reaches_decision w1 v captured"
    and "reaches_decision w2 v captured"
    and "run_result w1 (pull_argv v) = Inr p1"
  shows "((after_status (fst (main v w1)) = [Print (''Branch already up to date.'' @ [CHR 0x0A])])
           \<longleftrightarrow> py_in ''Already up to date'' captured)
    \<and> take 1 (after_status (fst (main v w1))) = take 1 (after_status (fst (main v w2)))
    \<and> main v (w1\<lparr>run_result :=
          (run_result w1)(pull_argv v := Inr (p1\<lparr>stderr_text := err, returncode := rc\<rparr>))\<rparr>)
        = main v w1"
proof -
  have d: "after_status (fst (main v w)) =
      (if py_in ''Already up to date'' captured
       then [Print (''Branch already up to date.'' @ [CHR 0x0A])]
       else (case system_result w (push_command v) of
               Inl e \<Rightarrow> [System (push_command v)]
             | Inr pushed \<Rightarrow> [System (push_command v), System (pr_command v)]))"
    if "reaches_decision w v captured" for w
    unfolding main_decided [OF that]
    by (simp add: after_status_decided split: sum.split)
  have first: "(after_status (fst (main v w1)) = [Print (''Branch already up to date.'' @ [CHR 0x0A])])
           \<longleftrightarrow> py_in ''Already up to date'' captured"
    unfolding d [OF assms(1)] by (simp split: sum.split)
  have second: "take 1 (after_status (fst (main v w1))) = take 1 (after_status (fst (main v w2)))"
    unfolding d [OF assms(1)] d [OF assms(2)] by (simp split: sum.split)
  have third: "main v (w1\<lparr>run_result :=
          (run_result w1)(pull_argv v := Inr (p1\<lparr>stderr_text := err, returncode := rc\<rparr>))\<rparr>)
        = main v w1"
    unfolding main_decided [OF assms(1)]
      main_decided [OF reaches_decision_stderr [OF assms(1,3)]]
    by (simp split: sum.split)
  from first second third show ?thesis by blast
qed

text \<open>
  C10 at two concrete runs: the marker is on standard error only, and the run is a sync.
\<close>

theorem decision_reads_stdout_only_witness:
  "reaches_decision (demo_world 0 ''Updating abc123..def456'' ''Already up to date.'') (PyStr ''2.6'')
      ''Updating abc123..def456''
   \<and> reaches_decision (demo_world 1 ''Updating abc123..def456'' '''') (PyStr ''2.6'') ''Updating abc123..def456''
   \<and> after_status (fst (main (PyStr ''2.6'') (demo_world 0 ''Updating abc123..def456'' ''Already up to date.'')))
       \<noteq> [Print (''Branch already up to date.'' @ [CHR 0x0A])]
   \<and> take 1 (after_status (fst (main (PyStr ''2.6'') (demo_world 0 ''Updating abc123..def456'' ''Already up to date.''))))
       = take 1 (after_status (fst (main (PyStr ''2.6'') (demo_world 1 ''Updating abc123..def456'' ''''))))"
proof -
  have r1: "reaches_decision (demo_world 0 ''Updating abc123..def456'' ''Already up to date.'') (PyStr ''2.6'')
      ''Updating abc123..def456''"
    by (rule reaches_decision_demo_world)
  have r2: "reaches_decision (demo_world 1 ''Updating abc123..def456'' '''') (PyStr ''2.6'')
      ''Updating abc123..def456''"
    by (rule reaches_decision_demo_world)
  have p: "run_result (demo_world 0 ''Updating abc123..def456'' ''Already up to date.'') (pull_argv (PyStr ''2.6''))
      = Inr \<lparr>returncode = 0, stdout_decoded = Inr ''Updating abc123..def456'', stderr_text = ''Already up to date.''\<rparr>"
    by (simp add: demo_world_def)
  show ?thesis
    using decision_reads_stdout_only [OF r1 r2 p] r1 r2 by simp
qed

end
